theory Spec2Isabelle
  imports Complex_Main "HOL-Library.Word"
begin

section \<open>The audio ring buffer of game/ffmpeg.cc\<close>

text \<open>
  \<^verbatim>\<open>AudioBuffer\<close> is a ring of interleaved 16-bit samples shared by a decoding thread
  (the producer, which calls \<^verbatim>\<open>operator()\<close>) and the playback callback (the consumer,
  which calls \<^verbatim>\<open>prepare\<close> and \<^verbatim>\<open>read\<close>). Every member function touches the shared fields
  only while it holds \<^verbatim>\<open>m_mutex\<close>, so each critical section is modelled as one atomic
  function from the buffer to the buffer. A wait on \<^verbatim>\<open>m_cond\<close> whose predicate is false is
  an outcome of its own: the caller sleeps and the buffer is as it was.

  The cursors are \<^verbatim>\<open>std::int64_t\<close> in the source and \<open>int\<close> here, with the 64 bits written
  out where the source's arithmetic can leave them. A cursor plus a \<^verbatim>\<open>size_t\<close> (lines 87, 131,
  139 and 142) is computed in unsigned 64-bit arithmetic and wraps around: the model
  reduces modulo \<open>2^64\<close> and converts back with \<open>to_int64\<close>. A cursor plus an \<^verbatim>\<open>int64_t\<close>
  (lines 54, 98 and 126) is a signed addition, undefined in C++ when it overflows: the
  model compares the sums on \<open>int\<close> and so describes the executions in which they do not
  overflow. Sizes (\<^verbatim>\<open>size_t\<close>) are \<open>nat\<close>; a size of \<open>2^63\<close> or more (of a frame, of a
  request, of the ring) does not fit in memory, and the casts of sizes to \<^verbatim>\<open>int64_t\<close> (lines
  54, 97, 107 and 126) are taken to keep the value.
\<close>

subsection \<open>Data\<close>

type_synonym s16 = "16 word"

text \<open>
  The fields of \<^verbatim>\<open>AudioBuffer\<close> that the member functions of ffmpeg.cc use. The class
  declaration is in ffmpeg.hh, which is not part of the source at hand; \<open>m_eof_pos\<close> is
  "undefined until EOF is reached" in the specification and is an option here. The
  constructor sets \<open>m_sps\<close>, the samples per second, to \<^verbatim>\<open>rate * AUDIO_CHANNELS\<close>.
\<close>

record audio_buffer =
  m_data :: "s16 list"
  m_write_pos :: int
  m_read_pos :: int
  m_eof_pos :: "int option"
  m_sps :: nat
  m_seek_asked :: bool
  m_quit :: bool

subsection \<open>64-bit arithmetic\<close>

definition INT64_MAX :: int where
  "INT64_MAX = 9223372036854775807"

text \<open>
  The value of an unsigned 64-bit sum once it is stored in a \<^verbatim>\<open>std::int64_t\<close>: the
  representative of \<open>x\<close> modulo \<open>2^64\<close> between \<open>- 2^63\<close> and \<open>2^63 - 1\<close>.
\<close>

definition to_int64 :: "int \<Rightarrow> int" where
  "to_int64 x = (x + 9223372036854775808) mod 18446744073709551616 - 9223372036854775808"

subsection \<open>Library calls\<close>

text \<open>\<^verbatim>\<open>std::copy(src.begin(), src.end(), dst.begin() + off)\<close> with the range inside \<open>dst\<close>.\<close>

definition copy_to :: "'a list \<Rightarrow> nat \<Rightarrow> 'a list \<Rightarrow> 'a list" where
  "copy_to src off dst = take off dst @ src @ drop (off + length src) dst"

text \<open>
  \<^verbatim>\<open>std::fill(out, out + n, v)\<close> on a pointer. The memory a \<^verbatim>\<open>float*\<close> points to is a
  function from the offset to the value stored there.
\<close>

definition fill :: "(nat \<Rightarrow> 'f) \<Rightarrow> nat \<Rightarrow> 'f \<Rightarrow> (nat \<Rightarrow> 'f)" where
  "fill out n v = (\<lambda>i. if i < n then v else out i)"

subsection \<open>Producer side\<close>

definition wantMore :: "audio_buffer \<Rightarrow> bool" where
  "wantMore b \<longleftrightarrow> m_write_pos b < m_read_pos b + int (length (m_data b) div 2)"

definition condition :: "audio_buffer \<Rightarrow> bool" where
  "condition b \<longleftrightarrow> m_quit b \<or> m_seek_asked b \<or> wantMore b"

text \<open>
  How a call of \<^verbatim>\<open>AudioBuffer::operator()\<close> ends. \<open>Blocked\<close>: the call sleeps in
  \<^verbatim>\<open>m_cond.wait\<close> because \<open>condition\<close> is false. \<open>Undefined\<close>: the call leaves defined
  behaviour (a remainder by a ring of size zero, or a second hunk longer than the ring).
\<close>

datatype write_outcome = Ignored | Dropped | Blocked | Aborted | Written | Undefined

text \<open>
  \<^verbatim>\<open>AudioBuffer::operator()\<close> from \<^verbatim>\<open>m_cond.wait\<close> on (lines 74 to 88), applied to the buffer
  as it is when the wait tests \<open>condition\<close>: on entry, or when a sleeping call is woken.
  The pointer and the count are one list.
\<close>

definition operator_call_wait ::
  "audio_buffer \<Rightarrow> s16 list \<Rightarrow> int \<Rightarrow> write_outcome \<times> audio_buffer" where
  "operator_call_wait b data sample_position =
    (let count = length data;
         size = length (m_data b) in
     if \<not> condition b then (Blocked, b)
     else if m_quit b \<or> m_seek_asked b then (Aborted, b)
     else if size = 0 then (Undefined, b)
     else
       let write_pos_in_ring = nat sample_position mod size;
           first_hunk_size = min count (size - write_pos_in_ring)
       in if size < count - first_hunk_size then (Undefined, b)
          else (Written,
                b\<lparr>m_data := copy_to (drop first_hunk_size data) 0
                              (copy_to (take first_hunk_size data) write_pos_in_ring (m_data b)),
                  m_write_pos := to_int64 (sample_position + int count)\<rparr>))"

text \<open>
  \<^verbatim>\<open>AudioBuffer::operator()(data, count, sample_position)\<close>, the producer's write: the two
  early returns, then the wait. The two \<^verbatim>\<open>std::clog\<close> lines (negative position, gap) do
  not touch the buffer and are left out.
\<close>

definition operator_call :: "audio_buffer \<Rightarrow> s16 list \<Rightarrow> int \<Rightarrow> write_outcome \<times> audio_buffer" where
  "operator_call b data sample_position =
    (if sample_position < 0 then (Ignored, b)
     else if sample_position < m_read_pos b then (Dropped, b)
     else operator_call_wait b data sample_position)"

subsection \<open>Consumer side\<close>

text \<open>
  Modelled from the spec: \<^verbatim>\<open>AudioBuffer::eof\<close> is called by \<^verbatim>\<open>read\<close> and defined in ffmpeg.hh,
  which is not part of the source at hand. The specification: "end-of-stream covers the
  requested range (\<open>eof_pos\<close> known and range exceeds it)". The functions below take the
  test as their first argument, so what is proved of them holds whatever the header's body
  of \<^verbatim>\<open>eof\<close> is; \<open>eof\<close> is the argument when the model is run.
\<close>

definition eof :: "audio_buffer \<Rightarrow> int \<Rightarrow> bool" where
  "eof b pos = (case m_eof_pos b of None \<Rightarrow> False | Some e \<Rightarrow> e < pos)"

text \<open>
  The \<^verbatim>\<open>for\<close> loop of \<^verbatim>\<open>read\<close> after its first \<open>s\<close> rounds. Floating point is not
  interpreted: \<open>mac acc volume x\<close> stands for the \<^verbatim>\<open>float\<close> value of
  \<^verbatim>\<open>acc + volume * da::conv_from_s16(x)\<close> (\<^verbatim>\<open>conv_from_s16\<close> belongs to libda and is not
  part of the source at hand), and \<open>'f\<close> for \<^verbatim>\<open>float\<close>. The index
  \<^verbatim>\<open>(m_read_pos + s) % m_data.size()\<close> is unsigned: the sum is reduced modulo \<open>2^64\<close> first.
\<close>

primrec read_loop ::
  "('f \<Rightarrow> 'f \<Rightarrow> s16 \<Rightarrow> 'f) \<Rightarrow> audio_buffer \<Rightarrow> 'f \<Rightarrow> nat \<Rightarrow> (nat \<Rightarrow> 'f) \<Rightarrow> (nat \<Rightarrow> 'f)" where
  "read_loop mac b volume 0 out = out"
| "read_loop mac b volume (Suc s) out =
     (let out' = read_loop mac b volume s out
      in out'(s := mac (out' s) volume
                     (m_data b ! (nat ((m_read_pos b + int s) mod 18446744073709551616)
                                    mod length (m_data b)))))"

text \<open>
  \<^verbatim>\<open>AudioBuffer::read\<close> from the point where it takes the mutex (lines 120 to 145). The
  end-of-stream test is given the sum \<^verbatim>\<open>pos + samples\<close>; its conversion to the type of the
  parameter belongs to the declaration of \<^verbatim>\<open>eof\<close>.
\<close>

definition read_locked ::
  "(audio_buffer \<Rightarrow> int \<Rightarrow> bool) \<Rightarrow> ('f \<Rightarrow> 'f \<Rightarrow> s16 \<Rightarrow> 'f) \<Rightarrow> audio_buffer \<Rightarrow> (nat \<Rightarrow> 'f::zero) \<Rightarrow> nat \<Rightarrow> int \<Rightarrow> 'f
     \<Rightarrow> bool \<times> audio_buffer \<times> (nat \<Rightarrow> 'f)" where
  "read_locked eofp mac b out samples0 pos volume =
    (if eofp b (pos + int samples0) \<or> m_quit b then (False, b, out)
     else
       let size = length (m_data b);
           samples = min samples0 size
       in if m_read_pos b + int (size - samples) \<le> pos \<or> pos < m_read_pos b
          then (True,
                b\<lparr>m_read_pos := to_int64 (pos + int samples), m_seek_asked := True,
                  m_data := replicate size 0\<rparr>,
                fill out samples 0)
          else (True,
                b\<lparr>m_read_pos := to_int64 (pos + int samples)\<rparr>,
                read_loop mac b volume samples out))"

text \<open>
  \<^verbatim>\<open>AudioBuffer::read(begin, samples, pos, volume)\<close>. The result is the returned flag, the
  buffer and the caller's memory from \<^verbatim>\<open>begin\<close> on. The source does not advance \<^verbatim>\<open>begin\<close>
  after the silence for the negative positions, and neither does the model.
\<close>

definition read ::
  "(audio_buffer \<Rightarrow> int \<Rightarrow> bool) \<Rightarrow> ('f \<Rightarrow> 'f \<Rightarrow> s16 \<Rightarrow> 'f) \<Rightarrow> audio_buffer \<Rightarrow> (nat \<Rightarrow> 'f::zero) \<Rightarrow> nat \<Rightarrow> int \<Rightarrow> 'f
     \<Rightarrow> bool \<times> audio_buffer \<times> (nat \<Rightarrow> 'f)" where
  "read eofp mac b out samples pos volume =
    (if pos < 0 then
       let negative_samples = (if 0 < int samples + pos then nat (- pos) else samples);
           out' = fill out negative_samples 0
       in if negative_samples = samples then (True, b, out')
          else read_locked eofp mac b out' (samples - negative_samples) 0 volume
     else read_locked eofp mac b out samples pos volume)"

text \<open>\<^verbatim>\<open>AudioBuffer::prepare(pos)\<close>: a read of no samples into no memory, then the test.\<close>

definition prepare ::
  "(audio_buffer \<Rightarrow> int \<Rightarrow> bool) \<Rightarrow> ('f::{zero,one} \<Rightarrow> 'f \<Rightarrow> s16 \<Rightarrow> 'f) \<Rightarrow> audio_buffer \<Rightarrow> int
     \<Rightarrow> bool \<times> audio_buffer" where
  "prepare eofp mac b pos =
    (case read eofp mac b (\<lambda>i. 0) 0 pos 1 of (ok, b', out') \<Rightarrow>
       if \<not> ok then (True, b')
       else
         let ring_size = int (length (m_data b'))
         in (m_read_pos b' + ring_size div 16 < m_write_pos b'
               \<and> m_write_pos b' \<le> m_read_pos b' + ring_size, b'))"

text \<open>The critical section of \<^verbatim>\<open>AudioBuffer::~AudioBuffer\<close>.\<close>

definition destructor :: "audio_buffer \<Rightarrow> audio_buffer" where
  "destructor b =
     b\<lparr>m_read_pos := 0, m_write_pos := 0, m_data := replicate (length (m_data b)) 0,
       m_quit := True\<rparr>"

subsection \<open>The reader thread\<close>

text \<open>\<^verbatim>\<open>AV_TIME_BASE\<close> of libavutil: the number of its time units in a second.\<close>

definition AV_TIME_BASE :: nat where
  "AV_TIME_BASE = 1000000"

text \<open>
  The decoder is the external engine. One call of \<^verbatim>\<open>ffmpeg->handleOneFrame()\<close> hands some
  converted frames to the callback (\<^verbatim>\<open>AudioFFmpeg::processFrame\<close> calls \<^verbatim>\<open>operator()\<close> with
  the samples and their position) and then returns, throws \<^verbatim>\<open>FFmpeg::Eof\<close> or throws a
  \<^verbatim>\<open>std::exception\<close>. A run of the thread is driven by the list of these calls. The calls
  of the consumer, which can come in wherever the thread has released the mutex, are not
  part of a run: they are the functions of the consumer side, applied to the buffer
  between two steps.
\<close>

datatype ending = Returns | Throws_Eof | Throws_Error

record decode_call =
  frames :: "(s16 list \<times> int) list"
  ending :: ending

datatype log_line = Decode_error | Multiple_errors

datatype status = Looping | Waiting_at_eof | Waiting_in_write | Finished | Undefined_behaviour

text \<open>
  The thread's view: the shared buffer, its local counter (\<^verbatim>\<open>auto errors = 0u\<close>, a 32-bit
  unsigned), the times it passed to \<^verbatim>\<open>ffmpeg->seek\<close> (oldest first; the \<^verbatim>\<open>double\<close> is
  idealised as a real number) and the lines it wrote to \<^verbatim>\<open>std::clog\<close>.
\<close>

record reader =
  buffer :: audio_buffer
  errors :: "32 word"
  seek_calls :: "real list"
  clog :: "log_line list"

text \<open>The branch \<^verbatim>\<open>if (m_seek_asked)\<close> of the loop (lines 157 to 165).\<close>

definition seek_commit :: "reader \<Rightarrow> reader" where
  "seek_commit r =
    (let b = buffer r;
         seek_pos = real_of_int (m_read_pos b) / real AV_TIME_BASE
     in r\<lparr>buffer := b\<lparr>m_seek_asked := False, m_write_pos := m_read_pos b\<rparr>,
          seek_calls := seek_calls r @ [seek_pos]\<rparr>)"

text \<open>The callbacks of one decoder call, in order; a callback that sleeps stops the thread.\<close>

fun deliver :: "(s16 list \<times> int) list \<Rightarrow> audio_buffer \<Rightarrow> status \<times> audio_buffer" where
  "deliver [] b = (Looping, b)"
| "deliver ((data, sample_position) # fs) b =
     (case operator_call b data sample_position of
        (Blocked, b') \<Rightarrow> (Waiting_in_write, b')
      | (Undefined, b') \<Rightarrow> (Undefined_behaviour, b')
      | (outcome, b') \<Rightarrow> deliver fs b')"

text \<open>The handler \<^verbatim>\<open>catch (const std::exception& e)\<close> (lines 178 to 182).\<close>

definition on_error :: "reader \<Rightarrow> reader" where
  "on_error r =
    (let e = errors r + 1
     in r\<lparr>errors := e,
          clog := clog r @ Decode_error # (if 2 < e then [Multiple_errors] else [])\<rparr>)"

text \<open>
  The lambda of the constructor (lines 153 to 184): the loop \<^verbatim>\<open>while (!m_quit)\<close>. The
  result says where the thread is when the decoder calls are used up: still in the loop,
  asleep, or out of the loop.
\<close>

function reader_thread :: "decode_call list \<Rightarrow> reader \<Rightarrow> status \<times> reader" where
  "reader_thread ds r =
    (if m_quit (buffer r) then (Finished, r)
     else if m_seek_asked (buffer r) then reader_thread ds (seek_commit r)
     else
       case ds of
         [] \<Rightarrow> (Looping, r)
       | d # ds' \<Rightarrow>
           (case deliver (frames d) (buffer r) of
              (Looping, b') \<Rightarrow>
                (case ending d of
                   Returns \<Rightarrow> reader_thread ds' (r\<lparr>buffer := b', errors := 0\<rparr>)
                 | Throws_Eof \<Rightarrow>
                     (let r' = r\<lparr>buffer := b'\<lparr>m_eof_pos := Some (m_write_pos b')\<rparr>\<rparr>
                      in if m_quit (buffer r') \<or> m_seek_asked (buffer r')
                         then reader_thread ds' r'
                         else (Waiting_at_eof, r'))
                 | Throws_Error \<Rightarrow> reader_thread ds' (on_error (r\<lparr>buffer := b'\<rparr>)))
            | (stopped, b') \<Rightarrow> (stopped, r\<lparr>buffer := b'\<rparr>)))"
  by pat_completeness auto
termination
  by (relation "measure (\<lambda>(ds, r). 2 * length ds + (if m_seek_asked (buffer r) then 1 else 0))")
     (auto simp: seek_commit_def Let_def)

declare reader_thread.simps [simp del]

subsection \<open>Example states\<close>

text \<open>The toy buffer of the specification's scenarios: eight slots, nothing decoded yet.\<close>

definition toy :: audio_buffer where
  "toy = \<lparr>m_data = [0, 0, 0, 0, 0, 0, 0, 0], m_write_pos = 0, m_read_pos = 0,
          m_eof_pos = None, m_sps = 4, m_seek_asked = False, m_quit = False\<rparr>"

text \<open>The toy buffer after the frames 5, 6, 7, 8 were written at position 0.\<close>

definition toy_filled :: audio_buffer where
  "toy_filled = toy\<lparr>m_data := [5, 6, 7, 8, 0, 0, 0, 0], m_write_pos := 4\<rparr>"

text \<open>
  For running the model, samples are mixed in integers: the sample as it is, times the
  volume. The caller's memory holds 9 everywhere.
\<close>

definition toy_mac :: "int \<Rightarrow> int \<Rightarrow> s16 \<Rightarrow> int" where
  "toy_mac acc volume x = acc + volume * sint x"

definition toy_out :: "nat \<Rightarrow> int" where
  "toy_out i = 9"

text \<open>A reader thread that has just started, on the toy buffer.\<close>

definition toy_reader :: reader where
  "toy_reader = \<lparr>buffer = toy, errors = 0, seek_calls = [], clog = []\<rparr>"

text \<open>
  A buffer in which the consumer has asked for a seek to sample 96000 of a stream with
  96000 samples per second; a decoder call that fails before it has a frame; a decoder
  call that yields one frame.
\<close>

definition toy_seeking :: audio_buffer where
  "toy_seeking = toy\<lparr>m_read_pos := 96000, m_write_pos := 100000, m_sps := 96000,
                     m_seek_asked := True\<rparr>"

text \<open>
  Two buffers near the ends of the 64-bit range. \<open>toy_wrapped\<close>: the toy buffer after a read
  of four samples at position \<open>2^63 - 2\<close> and the seek commit that follows it.
  \<open>toy_late\<close>: the toy buffer with both cursors at \<open>2^63 - 5\<close>, as a read of four samples at
  position \<open>2^63 - 9\<close> and the seek commit leave them.
\<close>

definition toy_wrapped :: audio_buffer where
  "toy_wrapped = toy\<lparr>m_read_pos := - 9223372036854775806,
                     m_write_pos := - 9223372036854775806\<rparr>"

definition toy_late :: audio_buffer where
  "toy_late = toy\<lparr>m_read_pos := 9223372036854775803, m_write_pos := 9223372036854775803\<rparr>"

definition failing_call :: decode_call where
  "failing_call = \<lparr>frames = [], ending = Throws_Error\<rparr>"

definition good_call :: decode_call where
  "good_call = \<lparr>frames = [([5, 6], 0)], ending = Returns\<rparr>"

section \<open>Properties\<close>

subsection \<open>Auxiliary facts\<close>

lemma length_copy_to:
  "off + length src \<le> length dst \<Longrightarrow> length (copy_to src off dst) = length dst"
  by (simp add: copy_to_def)

lemma to_int64_id:
  "- 9223372036854775808 \<le> x \<Longrightarrow> x \<le> INT64_MAX \<Longrightarrow> to_int64 x = x"
  by (simp add: to_int64_def INT64_MAX_def)

lemma to_int64_le:
  assumes "0 \<le> x"
  shows "to_int64 x \<le> x"
proof -
  from assms have "(x + 9223372036854775808) mod 18446744073709551616 \<le> x + 9223372036854775808"
    by (intro zmod_le_nonneg_dividend) simp
  then show ?thesis
    by (simp add: to_int64_def)
qed


lemma read_loop_at:
  "read_loop mac b volume n out i =
     (if i < n
      then mac (out i) volume
             (m_data b ! (nat ((m_read_pos b + int i) mod 18446744073709551616)
                            mod length (m_data b)))
      else out i)"
  by (induction n) (auto simp: Let_def less_Suc_eq)

lemma toy_write: "operator_call toy [5, 6, 7, 8] 0 = (Written, toy_filled)"
  by (simp add: operator_call_def operator_call_wait_def to_int64_def toy_def toy_filled_def condition_def
      wantMore_def copy_to_def)

subsection \<open>Stale frames\<close>

text \<open>
  C7. A write whose absolute position is before \<open>m_read_pos\<close> is a no-op: it ends at once
  (it is ignored when the position is negative and dropped otherwise, both before the
  wait) and the buffer it leaves is the buffer it found, so both cursors, the
  end-of-stream position, the flags and the ring are unchanged.
\<close>

theorem stale_write_is_noop:
  assumes "sample_position < m_read_pos b"
  shows "snd (operator_call b data sample_position) = b
       \<and> (fst (operator_call b data sample_position) = Ignored
            \<or> fst (operator_call b data sample_position) = Dropped)"
  using assms by (simp add: operator_call_def Let_def)

theorem stale_write_is_noop_witness:
  "(3::int) < m_read_pos (toy\<lparr>m_read_pos := 4, m_write_pos := 6\<rparr>)
   \<and> snd (operator_call (toy\<lparr>m_read_pos := 4, m_write_pos := 6\<rparr>) [1, 2] 3)
       = toy\<lparr>m_read_pos := 4, m_write_pos := 6\<rparr>
   \<and> fst (operator_call (toy\<lparr>m_read_pos := 4, m_write_pos := 6\<rparr>) [1, 2] 3) = Dropped"
  using stale_write_is_noop [of 3 "toy\<lparr>m_read_pos := 4, m_write_pos := 6\<rparr>" "[1, 2]"]
  by (simp add: operator_call_def toy_def)

subsection \<open>Reads\<close>

lemma read_nonneg:
  "0 \<le> pos \<Longrightarrow> read eofp mac b out count pos volume = read_locked eofp mac b out count pos volume"
  by (simp add: read_def)

text \<open>
  C3 as stated fails. A position inside the window can be negative when the read cursor
  is: the cursor is stored from an unsigned sum and is negative after a read that ends
  beyond \<open>2^63 - 1\<close> (\<open>toy_wrapped\<close> is reached that way). A request wholly at negative
  positions is pre-roll: it returns true and leaves the cursor where it was, here at
  \<open>- 2^63 + 2\<close> and not at \<open>position + count = - 2^63 + 5\<close>. And at the upper end
  (\<open>toy_late\<close>) the cursor left by an in-window read of four samples at \<open>2^63 - 4\<close> is
  \<open>- 2^63\<close>, the 64-bit value of the sum \<open>2^63\<close>.
\<close>

theorem read_in_window_counterexample:
  "fst (snd (read eof toy_mac toy toy_out 4 9223372036854775806 1))
     = toy\<lparr>m_read_pos := - 9223372036854775806, m_seek_asked := True\<rparr>
   \<and> buffer (seek_commit (toy_reader\<lparr>buffer :=
         toy\<lparr>m_read_pos := - 9223372036854775806, m_seek_asked := True\<rparr>\<rparr>)) = toy_wrapped
   \<and> m_read_pos toy_wrapped \<le> - 9223372036854775805
   \<and> - 9223372036854775805 \<le> m_read_pos toy_wrapped + int (length (m_data toy_wrapped)) - int 2
   \<and> m_seek_asked toy_wrapped = False \<and> m_quit toy_wrapped = False
   \<and> eof toy_wrapped (- 9223372036854775805 + int 2) = False
   \<and> fst (read eof toy_mac toy_wrapped toy_out 2 (- 9223372036854775805) 1) = True
   \<and> m_read_pos (fst (snd (read eof toy_mac toy_wrapped toy_out 2 (- 9223372036854775805) 1)))
       = - 9223372036854775806
   \<and> m_read_pos toy_late \<le> 9223372036854775804
   \<and> 9223372036854775804 \<le> m_read_pos toy_late + int (length (m_data toy_late)) - int 4
   \<and> m_seek_asked toy_late = False \<and> m_quit toy_late = False
   \<and> eof toy_late (9223372036854775804 + int 4) = False
   \<and> m_read_pos (fst (snd (read eof toy_mac toy_late toy_out 4 9223372036854775804 1)))
       = - 9223372036854775808"
  by (simp add: read_def read_locked_def seek_commit_def to_int64_def eof_def toy_wrapped_def
      toy_late_def toy_reader_def toy_def)

text \<open>
  C3, amended. A read at a position that is not negative and lies inside the window
  \<open>[m_read_pos, m_read_pos + capacity - count]\<close>, with \<open>m_quit\<close> unset and end-of-stream not
  covering the range, returns true and leaves \<open>m_read_pos = position + count\<close>, the sum
  taken in 64-bit arithmetic: it is the plain sum when \<open>position + count\<close> is at most
  \<open>INT64_MAX\<close>. The seek flag plays no part.
\<close>

theorem read_in_window:
  assumes "0 \<le> pos"
    and "m_read_pos b \<le> pos"
    and "pos \<le> m_read_pos b + int (length (m_data b)) - int count"
    and "\<not> m_quit b"
    and "\<not> eofp b (pos + int count)"
  shows "fst (read eofp mac b out count pos volume)
       \<and> m_read_pos (fst (snd (read eofp mac b out count pos volume)))
           = to_int64 (pos + int count)
       \<and> (pos + int count \<le> INT64_MAX \<longrightarrow>
            m_read_pos (fst (snd (read eofp mac b out count pos volume))) = pos + int count)"
proof -
  from assms have le: "count \<le> length (m_data b)"
    by linarith
  with assms have *: "fst (read eofp mac b out count pos volume)
       \<and> m_read_pos (fst (snd (read eofp mac b out count pos volume)))
           = to_int64 (pos + int count)"
    by (simp add: read_nonneg read_locked_def Let_def min_absorb1)
  moreover have "to_int64 (pos + int count) = pos + int count" if "pos + int count \<le> INT64_MAX"
    using that assms(1) by (intro to_int64_id) simp_all
  ultimately show ?thesis
    by simp
qed

theorem read_in_window_witness:
  "(0::int) \<le> 0 \<and> m_read_pos toy_filled \<le> 0
   \<and> (0::int) \<le> m_read_pos toy_filled + int (length (m_data toy_filled)) - int 2
   \<and> \<not> m_quit toy_filled \<and> \<not> eof toy_filled (0 + int 2)
   \<and> 0 + int 2 \<le> INT64_MAX
   \<and> fst (read eof toy_mac toy_filled toy_out 2 0 1)
   \<and> m_read_pos (fst (snd (read eof toy_mac toy_filled toy_out 2 0 1))) = 2"
  using read_in_window [of 0 toy_filled 2 eof toy_mac toy_out 1]
  by (simp add: toy_filled_def toy_def eof_def INT64_MAX_def)

text \<open>
  C4 as stated fails: a read outside the window returns false when \<open>m_quit\<close> is set (the
  check comes first); a count above the capacity is clamped, so that the cursor ends at
  \<open>position + capacity\<close>, here at 108 and not at 100 + 9; and the cursor is stored from an
  unsigned sum, so that four samples at position \<open>2^63 - 2\<close> leave it at \<open>- 2^63 + 2\<close>.
\<close>

theorem read_outside_window_counterexample:
  "fst (read eof toy_mac (toy_filled\<lparr>m_quit := True\<rparr>) toy_out 2 100 1) = False
   \<and> m_read_pos (fst (snd (read eof toy_mac toy_filled toy_out 9 100 1))) = 108
   \<and> m_read_pos (fst (snd (read eof toy_mac toy_filled toy_out 4 9223372036854775806 1)))
       = - 9223372036854775806"
  by (simp add: read_def read_locked_def to_int64_def toy_filled_def toy_def eof_def)

text \<open>
  C4, amended. With \<open>m_quit\<close> unset and end-of-stream not covering the range, a read at a
  non-negative position outside the window \<open>[m_read_pos, m_read_pos + capacity - n]\<close>,
  where \<open>n\<close> is the count clamped to the capacity, returns true, writes zeros to the first
  \<open>n\<close> places of the output, sets \<open>m_read_pos = position + n\<close> in 64-bit arithmetic (the
  plain sum when \<open>position + n\<close> is at most \<open>INT64_MAX\<close>), raises \<open>m_seek_asked\<close> and leaves
  the whole ring zeroed.
\<close>

theorem read_outside_window:
  assumes "0 \<le> pos"
    and "pos < m_read_pos b
         \<or> m_read_pos b + int (length (m_data b)) - int (min count (length (m_data b))) < pos"
    and "\<not> m_quit b"
    and "\<not> eofp b (pos + int count)"
  shows "case read eofp mac b out count pos volume of (ok, b', out') \<Rightarrow>
           ok \<and> m_read_pos b' = to_int64 (pos + int (min count (length (m_data b))))
           \<and> (pos + int (min count (length (m_data b))) \<le> INT64_MAX \<longrightarrow>
                m_read_pos b' = pos + int (min count (length (m_data b))))
           \<and> m_seek_asked b'
           \<and> m_data b' = replicate (length (m_data b)) 0
           \<and> (\<forall>i < min count (length (m_data b)). out' i = 0)"
proof -
  from assms(2) have
    "m_read_pos b + int (length (m_data b) - min count (length (m_data b))) \<le> pos
     \<or> pos < m_read_pos b"
    by (auto simp: of_nat_diff)
  moreover have "to_int64 (pos + int (min count (length (m_data b))))
      = pos + int (min count (length (m_data b)))"
    if "pos + int (min count (length (m_data b))) \<le> INT64_MAX"
    using that assms(1) by (intro to_int64_id) simp_all
  ultimately show ?thesis
    using assms(1,3,4) by (simp add: read_nonneg read_locked_def Let_def fill_def)
qed

theorem read_outside_window_witness:
  "(0::int) \<le> 100
   \<and> (100 < m_read_pos toy_filled
       \<or> m_read_pos toy_filled + int (length (m_data toy_filled))
           - int (min 2 (length (m_data toy_filled))) < 100)
   \<and> \<not> m_quit toy_filled \<and> \<not> eof toy_filled (100 + int 2)
   \<and> 100 + int (min 2 (length (m_data toy_filled))) \<le> INT64_MAX
   \<and> fst (read eof toy_mac toy_filled toy_out 2 100 1)
   \<and> m_read_pos (fst (snd (read eof toy_mac toy_filled toy_out 2 100 1))) = 102
   \<and> m_seek_asked (fst (snd (read eof toy_mac toy_filled toy_out 2 100 1)))
   \<and> m_data (fst (snd (read eof toy_mac toy_filled toy_out 2 100 1))) = [0, 0, 0, 0, 0, 0, 0, 0]
   \<and> map (snd (snd (read eof toy_mac toy_filled toy_out 2 100 1))) [0, 1, 2] = [0, 0, 9]"
  using read_outside_window [of 100 toy_filled 2 eof toy_mac toy_out 1]
  by (simp add: read_def read_locked_def fill_def to_int64_def toy_filled_def toy_def toy_out_def
      eof_def INT64_MAX_def eval_nat_numeral)

text \<open>
  C5 as stated fails: a request that lies wholly at negative positions returns true before
  the flags are looked at, also when \<open>m_quit\<close> is set.
\<close>

theorem read_false_iff_counterexample:
  "m_quit (toy_filled\<lparr>m_quit := True\<rparr>)
   \<and> fst (read eof toy_mac (toy_filled\<lparr>m_quit := True\<rparr>) toy_out 2 (- 4) 1) = True"
  by (simp add: read_def)

text \<open>
  C5, amended. A request that reaches a non-negative position (the position is not
  negative, or \<open>position + count\<close> is positive) returns false if and only if the
  end-of-stream test holds of \<open>position + count\<close> or \<open>m_quit\<close> is set; with the test as the
  specification describes it: if and only if \<open>m_eof_pos\<close> is known and \<open>position + count\<close>
  exceeds it, or \<open>m_quit\<close> is set. A request wholly at negative positions returns true, with
  the buffer untouched and \<open>count\<close> zeros in the output. The model has no other way out:
  \<open>read\<close> is a total function.
\<close>

theorem read_false_iff:
  "(0 \<le> pos \<or> 0 < pos + int count \<longrightarrow>
      (\<not> fst (read eofp mac b out count pos volume) \<longleftrightarrow> eofp b (pos + int count) \<or> m_quit b)
      \<and> (\<not> fst (read eof mac b out count pos volume) \<longleftrightarrow>
           (case m_eof_pos b of None \<Rightarrow> False | Some e \<Rightarrow> e < pos + int count) \<or> m_quit b))
   \<and> (pos < 0 \<and> pos + int count \<le> 0 \<longrightarrow>
      read eofp mac b out count pos volume = (True, b, fill out count 0))"
proof -
  have *: "int (count - nat (- pos)) = pos + int count" if "pos < 0" "0 < pos + int count"
    using that by linarith
  have "\<not> fst (read e mac b out count pos volume) \<longleftrightarrow> e b (pos + int count) \<or> m_quit b"
    if "0 \<le> pos \<or> 0 < pos + int count" for e
    using that * by (auto simp: read_def read_locked_def Let_def add.commute)
  moreover have "read eofp mac b out count pos volume = (True, b, fill out count 0)"
    if "pos < 0 \<and> pos + int count \<le> 0"
    using that by (simp add: read_def add.commute)
  ultimately show ?thesis
    by (simp add: eof_def)
qed

theorem read_false_iff_witness:
  "((0::int) \<le> 3 \<or> (0::int) < 3 + int 2)
   \<and> eof (toy_filled\<lparr>m_eof_pos := Some 4\<rparr>) (3 + int 2)
   \<and> \<not> fst (read eof toy_mac (toy_filled\<lparr>m_eof_pos := Some 4\<rparr>) toy_out 2 3 1)
   \<and> (- 4 < (0::int) \<and> - 4 + int 2 \<le> 0)
   \<and> fst (read eof toy_mac toy_filled toy_out 2 (- 4) 1)"
  using read_false_iff [of 3 2 eof toy_mac "toy_filled\<lparr>m_eof_pos := Some 4\<rparr>" toy_out 1]
    read_false_iff [of "- 4" 2 eof toy_mac toy_filled toy_out 1]
  by (simp add: eof_def)

text \<open>
  C6 at a concrete input: four samples are asked for at position -2 of the filled toy
  buffer. The first two places of the output stand for the negative positions and the last
  two for the positions 0 and 1. The source zeroes the first two places and then, without
  advancing the output pointer, mixes the samples of the positions 0 and 1 into the same
  two places: the output is 5, 6, 9, 9 where silence followed by the mix (0, 0, 14, 15)
  is claimed.
\<close>

theorem read_partly_negative_output:
  "read eof toy_mac toy_filled toy_out 4 (- 2) 1
     = (True, toy_filled\<lparr>m_read_pos := 2\<rparr>,
        snd (snd (read eof toy_mac toy_filled toy_out 4 (- 2) 1)))
   \<and> map (snd (snd (read eof toy_mac toy_filled toy_out 4 (- 2) 1))) [0, 1, 2, 3] = [5, 6, 9, 9]"
  by (simp add: read_def read_locked_def read_loop_at fill_def to_int64_def toy_filled_def
      toy_def toy_out_def toy_mac_def eof_def)



subsection \<open>Writes and the cursors\<close>

lemma operator_call_wait_Written:
  assumes "fst (operator_call_wait b data sample_position) = Written"
  shows "condition b" and "\<not> m_quit b" and "\<not> m_seek_asked b"
    and "m_data b \<noteq> []"
    and "length data - min (length data) (length (m_data b) - nat sample_position mod length (m_data b))
           \<le> length (m_data b)"
    and "snd (operator_call_wait b data sample_position)
         = b\<lparr>m_data := copy_to (drop (min (length data) (length (m_data b)
                                       - nat sample_position mod length (m_data b))) data) 0
                          (copy_to (take (min (length data) (length (m_data b)
                                       - nat sample_position mod length (m_data b))) data)
                             (nat sample_position mod length (m_data b)) (m_data b)),
             m_write_pos := to_int64 (sample_position + int (length data))\<rparr>"
proof -
  let ?size = "length (m_data b)"
  let ?rest = "length data - min (length data) (?size - nat sample_position mod ?size)"
  have c: "condition b"
  proof (rule ccontr)
    assume "\<not> condition b"
    then have "fst (operator_call_wait b data sample_position) = Blocked"
      by (simp add: operator_call_wait_def)
    with assms show False by simp
  qed
  have d: "\<not> (m_quit b \<or> m_seek_asked b)"
  proof
    assume "m_quit b \<or> m_seek_asked b"
    with c have "fst (operator_call_wait b data sample_position) = Aborted"
      by (simp add: operator_call_wait_def)
    with assms show False by simp
  qed
  have e: "?size \<noteq> 0"
  proof
    assume "?size = 0"
    with c d have "fst (operator_call_wait b data sample_position) = Undefined"
      by (simp add: operator_call_wait_def)
    with assms show False by simp
  qed
  have f: "\<not> ?size < ?rest"
  proof
    assume "?size < ?rest"
    with c d e have "fst (operator_call_wait b data sample_position) = Undefined"
      by (simp add: operator_call_wait_def Let_def)
    with assms show False by simp
  qed
  from c show "condition b" .
  from d show "\<not> m_quit b" and "\<not> m_seek_asked b" by simp_all
  from e show "m_data b \<noteq> []" by simp
  from f show "?rest \<le> ?size" by simp
  from c d e f show "snd (operator_call_wait b data sample_position)
         = b\<lparr>m_data := copy_to (drop (min (length data) (length (m_data b)
                                       - nat sample_position mod length (m_data b))) data) 0
                          (copy_to (take (min (length data) (length (m_data b)
                                       - nat sample_position mod length (m_data b))) data)
                             (nat sample_position mod length (m_data b)) (m_data b)),
             m_write_pos := to_int64 (sample_position + int (length data))\<rparr>"
    by (simp add: operator_call_wait_def Let_def)
qed

lemma outcome_chain:
  "fst (if c3 then (Blocked, b) else if c4 then (Aborted, b) else if c5 then (Undefined, b)
        else if c6 then (Undefined, b) else (Written, b')) \<noteq> Written
   \<Longrightarrow> snd (if c3 then (Blocked, b) else if c4 then (Aborted, b) else if c5 then (Undefined, b)
        else if c6 then (Undefined, b) else (Written, b')) = b"
  by (simp split: if_splits)

lemma operator_call_wait_unchanged:
  "fst (operator_call_wait b data sample_position) \<noteq> Written
   \<Longrightarrow> snd (operator_call_wait b data sample_position) = b"
  unfolding operator_call_wait_def Let_def by (rule outcome_chain)

lemma operator_call_wait_length:
  "length (m_data (snd (operator_call_wait b data sample_position))) = length (m_data b)"
proof (cases "fst (operator_call_wait b data sample_position) = Written")
  case True
  note w = operator_call_wait_Written [OF True]
  let ?size = "length (m_data b)"
  let ?at = "nat sample_position mod ?size"
  let ?first = "min (length data) (?size - ?at)"
  from w(4) have "?at < ?size"
    by simp
  then have "length (copy_to (take ?first data) ?at (m_data b)) = ?size"
    by (intro length_copy_to) simp
  moreover from w(5) have "0 + length (drop ?first data) \<le> ?size"
    by simp
  ultimately have
    "length (copy_to (drop ?first data) 0 (copy_to (take ?first data) ?at (m_data b))) = ?size"
    by (simp only: length_copy_to)
  with w(6) show ?thesis
    by simp
next
  case False
  then show ?thesis
    by (simp add: operator_call_wait_unchanged)
qed

lemma operator_call_wait_read_pos:
  "m_read_pos (snd (operator_call_wait b data sample_position)) = m_read_pos b"
proof (cases "fst (operator_call_wait b data sample_position) = Written")
  case True
  from operator_call_wait_Written(6) [OF True] show ?thesis
    by simp
next
  case False
  then show ?thesis
    by (simp add: operator_call_wait_unchanged)
qed

lemma operator_call_wait_write_pos:
  assumes "m_write_pos b \<le> sample_position"
    and "0 \<le> sample_position"
    and "sample_position + int (length data) \<le> INT64_MAX"
  shows "m_write_pos b \<le> m_write_pos (snd (operator_call_wait b data sample_position))"
proof (cases "fst (operator_call_wait b data sample_position) = Written")
  case True
  from assms(2,3) have "to_int64 (sample_position + int (length data))
      = sample_position + int (length data)"
    by (intro to_int64_id) simp_all
  with operator_call_wait_Written(6) [OF True] assms(1) show ?thesis
    by simp
next
  case False
  then show ?thesis
    by (simp add: operator_call_wait_unchanged)
qed

lemma operator_call_wait_flags:
  "m_quit (snd (operator_call_wait b data sample_position)) = m_quit b
   \<and> m_seek_asked (snd (operator_call_wait b data sample_position)) = m_seek_asked b"
proof (cases "fst (operator_call_wait b data sample_position) = Written")
  case True
  from operator_call_wait_Written(6) [OF True] show ?thesis
    by simp
next
  case False
  then show ?thesis
    by (simp add: operator_call_wait_unchanged)
qed

lemma operator_call_cases:
  "operator_call b data sample_position = (Ignored, b)
   \<or> operator_call b data sample_position = (Dropped, b)
   \<or> operator_call b data sample_position = operator_call_wait b data sample_position"
  by (simp add: operator_call_def)

lemma operator_call_read_pos:
  "m_read_pos (snd (operator_call b data sample_position)) = m_read_pos b"
  using operator_call_cases [of b data sample_position]
    operator_call_wait_read_pos [of b data sample_position]
  by auto

lemma operator_call_write_pos:
  assumes "m_write_pos b \<le> sample_position"
    and "sample_position + int (length data) \<le> INT64_MAX"
  shows "m_write_pos b \<le> m_write_pos (snd (operator_call b data sample_position))"
proof (cases "sample_position < 0")
  case True
  then show ?thesis
    by (simp add: operator_call_def)
next
  case False
  with operator_call_cases [of b data sample_position]
    operator_call_wait_write_pos [OF assms(1) _ assms(2)]
  show ?thesis
    by auto
qed

lemma operator_call_flags:
  "m_quit (snd (operator_call b data sample_position)) = m_quit b
   \<and> m_seek_asked (snd (operator_call b data sample_position)) = m_seek_asked b"
  using operator_call_cases [of b data sample_position]
    operator_call_wait_flags [of b data sample_position]
  by auto

text \<open>
  C2 as stated fails. A write is let through when the write cursor before the call is
  less than half a ring ahead of the read cursor; the position and the length of the frame
  are not looked at. A frame far ahead (position 100 in the empty toy buffer) or a long
  frame (eight samples at position 3) completes without sleeping and leaves the write
  cursor more than the capacity ahead of the read cursor: at 102 and at 11, with the read
  cursor at 0 and eight slots.
\<close>

theorem write_ahead_counterexample:
  "operator_call toy [1, 2] 100
     = (Written, toy\<lparr>m_data := [0, 0, 0, 0, 1, 2, 0, 0], m_write_pos := 102\<rparr>)
   \<and> m_read_pos toy = 0 \<and> length (m_data toy) = 8
   \<and> fst (operator_call (toy\<lparr>m_write_pos := 3\<rparr>) [1, 2, 3, 4, 5, 6, 7, 8] 3) = Written
   \<and> m_write_pos (snd (operator_call (toy\<lparr>m_write_pos := 3\<rparr>) [1, 2, 3, 4, 5, 6, 7, 8] 3)) = 11"
  by (simp add: operator_call_def operator_call_wait_def to_int64_def toy_def condition_def
      wantMore_def copy_to_def)

text \<open>
  C2, amended. A write that is neither ignored nor dropped goes to the wait. There, on
  entry or when woken, a call that finds \<open>condition\<close> false (no flag set, the write cursor
  half a ring or more ahead of the read cursor) sleeps and changes nothing. A call
  completes only from a buffer with both flags unset and
  \<open>m_write_pos < m_read_pos + capacity div 2\<close>; it leaves the read cursor and the capacity
  as they were and sets \<open>m_write_pos = position + count\<close> in 64-bit arithmetic, which is
  the plain sum when the position is not negative (as it is in every call that reaches
  the wait) and \<open>position + count\<close> is at most \<open>INT64_MAX\<close>. So after a completed write of a
  frame at a non-negative position \<open>m_write_pos \<le> m_read_pos + capacity\<close> holds when the
  frame does not start after the old write cursor and is at most half a ring long
  (\<open>count + capacity div 2 \<le> capacity\<close>); it is not guaranteed otherwise.
\<close>

theorem write_ahead_bound:
  "(0 \<le> sample_position \<and> m_read_pos b \<le> sample_position \<longrightarrow>
      operator_call b data sample_position = operator_call_wait b data sample_position)
   \<and> (\<not> condition b \<longrightarrow> operator_call_wait b data sample_position = (Blocked, b))
   \<and> (fst (operator_call_wait b data sample_position) = Written \<longrightarrow>
        \<not> m_quit b \<and> \<not> m_seek_asked b
        \<and> m_write_pos b < m_read_pos b + int (length (m_data b) div 2)
        \<and> m_read_pos (snd (operator_call_wait b data sample_position)) = m_read_pos b
        \<and> length (m_data (snd (operator_call_wait b data sample_position))) = length (m_data b)
        \<and> m_write_pos (snd (operator_call_wait b data sample_position))
            = to_int64 (sample_position + int (length data))
        \<and> (0 \<le> sample_position \<and> sample_position + int (length data) \<le> INT64_MAX \<longrightarrow>
             m_write_pos (snd (operator_call_wait b data sample_position))
               = sample_position + int (length data))
        \<and> (0 \<le> sample_position \<and> sample_position \<le> m_write_pos b
             \<and> length data + length (m_data b) div 2 \<le> length (m_data b) \<longrightarrow>
           m_write_pos (snd (operator_call_wait b data sample_position))
             \<le> m_read_pos (snd (operator_call_wait b data sample_position))
                + int (length (m_data (snd (operator_call_wait b data sample_position))))))"
proof (intro conjI impI)
  assume "0 \<le> sample_position \<and> m_read_pos b \<le> sample_position"
  then show "operator_call b data sample_position = operator_call_wait b data sample_position"
    by (simp add: operator_call_def)
next
  assume "\<not> condition b"
  then show "operator_call_wait b data sample_position = (Blocked, b)"
    by (simp add: operator_call_wait_def Let_def)
next
  assume w: "fst (operator_call_wait b data sample_position) = Written"
  note facts = operator_call_wait_Written [OF w]
  from facts(1,2,3) show more: "m_write_pos b < m_read_pos b + int (length (m_data b) div 2)"
    by (simp add: condition_def wantMore_def)
  from facts(2) show "\<not> m_quit b" .
  from facts(3) show "\<not> m_seek_asked b" .
  show rp: "m_read_pos (snd (operator_call_wait b data sample_position)) = m_read_pos b"
    by (rule operator_call_wait_read_pos)
  show len: "length (m_data (snd (operator_call_wait b data sample_position))) = length (m_data b)"
    by (rule operator_call_wait_length)
  from facts(6) show wp: "m_write_pos (snd (operator_call_wait b data sample_position))
      = to_int64 (sample_position + int (length data))"
    by simp
  {
    assume "0 \<le> sample_position \<and> sample_position + int (length data) \<le> INT64_MAX"
    then have "to_int64 (sample_position + int (length data))
        = sample_position + int (length data)"
      by (intro to_int64_id) simp_all
    with wp show "m_write_pos (snd (operator_call_wait b data sample_position))
        = sample_position + int (length data)"
      by simp
  }
  assume a: "0 \<le> sample_position \<and> sample_position \<le> m_write_pos b
    \<and> length data + length (m_data b) div 2 \<le> length (m_data b)"
  then have "to_int64 (sample_position + int (length data))
      \<le> sample_position + int (length data)"
    by (intro to_int64_le) simp
  with a more show "m_write_pos (snd (operator_call_wait b data sample_position))
      \<le> m_read_pos (snd (operator_call_wait b data sample_position))
         + int (length (m_data (snd (operator_call_wait b data sample_position))))"
    unfolding rp len wp by linarith
qed

theorem write_ahead_bound_witness:
  "(0 \<le> (3::int) \<and> m_read_pos (toy\<lparr>m_write_pos := 3\<rparr>) \<le> 3)
   \<and> operator_call (toy\<lparr>m_write_pos := 3\<rparr>) [1, 2, 3, 4] 3
       = operator_call_wait (toy\<lparr>m_write_pos := 3\<rparr>) [1, 2, 3, 4] 3
   \<and> fst (operator_call_wait (toy\<lparr>m_write_pos := 3\<rparr>) [1, 2, 3, 4] 3) = Written
   \<and> (0 \<le> (3::int) \<and> 3 + int (length [1, 2, 3, 4 :: s16]) \<le> INT64_MAX)
   \<and> (0 \<le> (3::int) \<and> 3 \<le> m_write_pos (toy\<lparr>m_write_pos := 3\<rparr>)
       \<and> length [1, 2, 3, 4 :: s16] + length (m_data (toy\<lparr>m_write_pos := 3\<rparr>)) div 2
            \<le> length (m_data (toy\<lparr>m_write_pos := 3\<rparr>)))
   \<and> m_write_pos (snd (operator_call_wait (toy\<lparr>m_write_pos := 3\<rparr>) [1, 2, 3, 4] 3)) = 7
   \<and> m_write_pos (snd (operator_call_wait (toy\<lparr>m_write_pos := 3\<rparr>) [1, 2, 3, 4] 3))
        \<le> m_read_pos (snd (operator_call_wait (toy\<lparr>m_write_pos := 3\<rparr>) [1, 2, 3, 4] 3))
           + int (length (m_data (snd (operator_call_wait (toy\<lparr>m_write_pos := 3\<rparr>) [1, 2, 3, 4] 3))))
   \<and> \<not> condition toy_filled
   \<and> operator_call_wait toy_filled [9] 4 = (Blocked, toy_filled)"
  using write_ahead_bound [of 3 "toy\<lparr>m_write_pos := 3\<rparr>" "[1, 2, 3, 4]"]
    write_ahead_bound [of 4 toy_filled "[9]"]
  by (simp add: operator_call_wait_def to_int64_def toy_def toy_filled_def condition_def
      wantMore_def copy_to_def INT64_MAX_def)

lemma read_write_pos:
  "m_write_pos (fst (snd (read eofp mac b out count pos volume))) = m_write_pos b"
  by (simp add: read_def read_locked_def Let_def)

lemma read_locked_read_pos:
  assumes "0 \<le> pos" and "pos + int count \<le> INT64_MAX"
  shows "m_read_pos (fst (snd (read_locked eofp mac b out count pos volume))) = m_read_pos b
       \<or> pos \<le> m_read_pos (fst (snd (read_locked eofp mac b out count pos volume)))"
proof -
  let ?n = "min count (length (m_data b))"
  from assms have "to_int64 (pos + int ?n) = pos + int ?n"
    by (intro to_int64_id) simp_all
  then show ?thesis
    by (simp add: read_locked_def Let_def)
qed

lemma read_read_pos:
  assumes "m_read_pos b \<le> pos" and "pos + int count \<le> INT64_MAX"
  shows "m_read_pos b \<le> m_read_pos (fst (snd (read eofp mac b out count pos volume)))"
proof (cases "0 \<le> pos")
  case True
  with assms read_locked_read_pos [of pos count eofp mac b out volume] show ?thesis
    by (auto simp: read_nonneg)
next
  case False
  show ?thesis
  proof (cases "0 < int count + pos")
    case wholly: False
    with False show ?thesis
      by (simp add: read_def)
  next
    case True
    let ?rest = "count - nat (- pos)"
    from True False have rest: "int ?rest = int count + pos"
      by linarith
    with assms(2) False have "0 + int ?rest \<le> INT64_MAX"
      by linarith
    from read_locked_read_pos [OF _ this, of eofp mac b "fill out (nat (- pos)) 0" volume]
      assms(1) False True
    show ?thesis
      by (auto simp: read_def Let_def)
  qed
qed

lemma prepare_buffer:
  "snd (prepare eofp mac b pos) = fst (snd (read eofp mac b (\<lambda>i. 0) 0 pos 1))"
  by (simp add: prepare_def Let_def split: prod.splits)

text \<open>
  C8 as stated fails. A write at a position before the write cursor moves the write
  cursor back (from 3 to 2 here) and the destructor resets both cursors to 0; neither is a
  seek commit. A read at a position before the read cursor moves the read cursor back as
  well (from 4 to 3 here); it asks for a seek, the commit comes later in the reader thread.
\<close>

theorem cursors_monotone_counterexample:
  "m_write_pos (toy\<lparr>m_write_pos := 3\<rparr>) = 3
   \<and> fst (operator_call (toy\<lparr>m_write_pos := 3\<rparr>) [7] 1) = Written
   \<and> m_write_pos (snd (operator_call (toy\<lparr>m_write_pos := 3\<rparr>) [7] 1)) = 2
   \<and> m_read_pos (destructor (toy_filled\<lparr>m_read_pos := 2\<rparr>)) = 0
   \<and> m_write_pos (destructor (toy_filled\<lparr>m_read_pos := 2\<rparr>)) = 0
   \<and> m_read_pos (fst (snd (read eof toy_mac (toy_filled\<lparr>m_read_pos := 4\<rparr>) toy_out 2 1 1))) = 3"
  by (simp add: operator_call_def operator_call_wait_def to_int64_def destructor_def read_def
      read_locked_def toy_def toy_filled_def condition_def wantMore_def copy_to_def eof_def)

text \<open>
  C8, amended. \<open>read\<close> and \<open>prepare\<close> never change the write cursor, and do not decrease the
  read cursor when the position asked for is at or after it and the end of the request
  (\<open>position + count\<close>; for \<open>prepare\<close> the position) is at most \<open>INT64_MAX\<close>. The write,
  from its entry and from its wait, never changes the read cursor, and does not decrease
  the write cursor when the frame's position is at or after it and \<open>position + count\<close> is
  at most \<open>INT64_MAX\<close> (from the wait: for a position that is not negative). The seek
  commit leaves the read cursor alone and sets the write cursor to it; the error handler
  leaves the buffer alone. The destructor resets both cursors to 0.
\<close>

theorem cursor_steps:
  "m_write_pos (fst (snd (read eofp mac b out count pos volume))) = m_write_pos b
   \<and> (m_read_pos b \<le> pos \<and> pos + int count \<le> INT64_MAX \<longrightarrow>
        m_read_pos b \<le> m_read_pos (fst (snd (read eofp mac b out count pos volume))))
   \<and> m_write_pos (snd (prepare eofp mac1 b pos)) = m_write_pos b
   \<and> (m_read_pos b \<le> pos \<and> pos \<le> INT64_MAX \<longrightarrow>
        m_read_pos b \<le> m_read_pos (snd (prepare eofp mac1 b pos)))
   \<and> m_read_pos (snd (operator_call b data sample_position)) = m_read_pos b
   \<and> (m_write_pos b \<le> sample_position
        \<and> sample_position + int (length data) \<le> INT64_MAX \<longrightarrow>
        m_write_pos b \<le> m_write_pos (snd (operator_call b data sample_position)))
   \<and> m_read_pos (snd (operator_call_wait b data sample_position)) = m_read_pos b
   \<and> (m_write_pos b \<le> sample_position \<and> 0 \<le> sample_position
        \<and> sample_position + int (length data) \<le> INT64_MAX \<longrightarrow>
        m_write_pos b \<le> m_write_pos (snd (operator_call_wait b data sample_position)))
   \<and> m_read_pos (buffer (seek_commit r)) = m_read_pos (buffer r)
   \<and> m_write_pos (buffer (seek_commit r)) = m_read_pos (buffer r)
   \<and> buffer (on_error r) = buffer r
   \<and> m_read_pos (destructor b) = 0 \<and> m_write_pos (destructor b) = 0"
proof -
  have "m_read_pos b \<le> m_read_pos (snd (prepare eofp mac1 b pos))"
    if "m_read_pos b \<le> pos \<and> pos \<le> INT64_MAX"
    using that read_read_pos [of b pos 0 eofp mac1 "\<lambda>i. 0" 1]
    by (simp add: prepare_buffer)
  then show ?thesis
    by (simp add: read_write_pos read_read_pos prepare_buffer operator_call_read_pos
        operator_call_write_pos operator_call_wait_read_pos operator_call_wait_write_pos
        seek_commit_def on_error_def destructor_def Let_def)
qed

theorem cursor_steps_witness:
  "(m_read_pos toy_filled \<le> 1 \<and> 1 + int 2 \<le> INT64_MAX)
   \<and> m_read_pos toy_filled \<le> m_read_pos (fst (snd (read eof toy_mac toy_filled toy_out 2 1 1)))
   \<and> m_read_pos (fst (snd (read eof toy_mac toy_filled toy_out 2 1 1))) = 3
   \<and> (m_read_pos toy_filled \<le> 1 \<and> 1 \<le> INT64_MAX)
   \<and> m_read_pos toy_filled \<le> m_read_pos (snd (prepare eof toy_mac toy_filled 1))
   \<and> (m_write_pos (toy\<lparr>m_write_pos := 3\<rparr>) \<le> 3 \<and> (0::int) \<le> 3
        \<and> 3 + int (length [7 :: s16]) \<le> INT64_MAX)
   \<and> m_write_pos (toy\<lparr>m_write_pos := 3\<rparr>)
        \<le> m_write_pos (snd (operator_call (toy\<lparr>m_write_pos := 3\<rparr>) [7] 3))
   \<and> m_write_pos (snd (operator_call (toy\<lparr>m_write_pos := 3\<rparr>) [7] 3)) = 4"
  using cursor_steps [of eof toy_mac toy_filled toy_out 2 1 1 toy_mac]
    cursor_steps [of eof toy_mac "toy\<lparr>m_write_pos := 3\<rparr>" toy_out 2 1 1 toy_mac "[7]" 3]
  by (simp add: read_def read_locked_def operator_call_def operator_call_wait_def to_int64_def
      toy_filled_def toy_def eof_def condition_def wantMore_def INT64_MAX_def)

subsection \<open>The reader thread\<close>

lemma deliver_not_Finished: "fst (deliver fs b) \<noteq> Finished"
proof (induction fs arbitrary: b)
  case Nil
  show ?case by simp
next
  case (Cons f fs)
  obtain data p where f: "f = (data, p)"
    by (cases f)
  obtain outcome b' where oc: "operator_call b data p = (outcome, b')"
    by (cases "operator_call b data p")
  from Cons.IH [of b'] show ?case
    by (cases outcome) (simp_all add: f oc)
qed

lemma deliver_flags:
  "m_quit (snd (deliver fs b)) = m_quit b \<and> m_seek_asked (snd (deliver fs b)) = m_seek_asked b"
proof (induction fs arbitrary: b)
  case Nil
  show ?case by simp
next
  case (Cons f fs)
  obtain data p where f: "f = (data, p)"
    by (cases f)
  obtain outcome b' where oc: "operator_call b data p = (outcome, b')"
    by (cases "operator_call b data p")
  from operator_call_flags [of b data p] oc
  have b': "m_quit b' = m_quit b \<and> m_seek_asked b' = m_seek_asked b"
    by simp
  from Cons.IH [of b'] b' show ?case
    by (cases outcome) (simp_all add: f oc)
qed

lemma seek_commit_flags:
  "m_quit (buffer (seek_commit r)) = m_quit (buffer r)"
  "\<not> m_seek_asked (buffer (seek_commit r))"
  by (simp_all add: seek_commit_def Let_def)

lemma on_error_fields:
  "buffer (on_error r) = buffer r"
  "errors (on_error r) = errors r + 1"
  "seek_calls (on_error r) = seek_calls r"
  by (simp_all add: on_error_def Let_def)

lemma reader_thread_not_Finished:
  "\<not> m_quit (buffer r) \<Longrightarrow> fst (reader_thread ds r) \<noteq> Finished"
proof (induction ds r rule: reader_thread.induct)
  case (1 ds r)
  show ?case
  proof (cases "m_seek_asked (buffer r)")
    case True
    from "1.IH"(1) [OF "1.prems" True] "1.prems"
    have "fst (reader_thread ds (seek_commit r)) \<noteq> Finished"
      by (simp add: seek_commit_flags)
    with "1.prems" True show ?thesis
      by (subst reader_thread.simps) simp
  next
    case False
    show ?thesis
    proof (cases ds)
      case Nil
      with False "1.prems" show ?thesis
        by (subst reader_thread.simps) simp
    next
      case (Cons d ds')
      obtain st b' where dl: "deliver (frames d) (buffer r) = (st, b')"
        by (cases "deliver (frames d) (buffer r)")
      from deliver_flags [of "frames d" "buffer r"] dl "1.prems" False
      have fl: "\<not> m_quit b'" "\<not> m_seek_asked b'"
        by simp_all
      from deliver_not_Finished [of "frames d" "buffer r"] dl have nf: "st \<noteq> Finished"
        by simp
      show ?thesis
      proof (cases "st = Looping")
        case True
        show ?thesis
        proof (cases "ending d")
          case Returns
          from "1.IH"(2) [OF "1.prems" False Cons dl [symmetric] True Returns] fl
          have "fst (reader_thread ds' (r\<lparr>buffer := b', errors := 0\<rparr>)) \<noteq> Finished"
            by simp
          with "1.prems" False Cons dl True Returns show ?thesis
            by (subst reader_thread.simps) simp
        next
          case Throws_Eof
          with "1.prems" False Cons dl True fl show ?thesis
            by (subst reader_thread.simps) (simp add: Let_def)
        next
          case Throws_Error
          from "1.IH"(4) [OF "1.prems" False Cons dl [symmetric] True Throws_Error] fl
          have "fst (reader_thread ds' (on_error (r\<lparr>buffer := b'\<rparr>))) \<noteq> Finished"
            by (simp add: on_error_fields)
          with "1.prems" False Cons dl True Throws_Error show ?thesis
            by (subst reader_thread.simps) simp
        qed
      next
        case False
        with nf "1.prems" \<open>\<not> m_seek_asked (buffer r)\<close> Cons dl show ?thesis
          by (subst reader_thread.simps) (cases st; simp)
      qed
    qed
  qed
qed


lemma reader_thread_seek_step:
  assumes "\<not> m_quit (buffer r)" and "m_seek_asked (buffer r)"
  shows "reader_thread ds r = reader_thread ds (seek_commit r)"
  using assms by (subst reader_thread.simps) simp

lemma reader_thread_idle:
  assumes "\<not> m_quit (buffer r)" and "\<not> m_seek_asked (buffer r)"
  shows "reader_thread [] r = (Looping, r)"
  using assms by (subst reader_thread.simps) simp

lemma reader_thread_error_step:
  assumes "\<not> m_quit (buffer r)" and "\<not> m_seek_asked (buffer r)"
    and "ending d = Throws_Error" and "fst (deliver (frames d) (buffer r)) = Looping"
  shows "reader_thread (d # ds) r
         = reader_thread ds (on_error (r\<lparr>buffer := snd (deliver (frames d) (buffer r))\<rparr>))"
proof -
  from assms(4) obtain b' where "deliver (frames d) (buffer r) = (Looping, b')"
    by (cases "deliver (frames d) (buffer r)") simp
  with assms show ?thesis
    by (subst reader_thread.simps) simp
qed

lemma reader_thread_success_step:
  assumes "\<not> m_quit (buffer r)" and "\<not> m_seek_asked (buffer r)"
    and "ending d = Returns" and "fst (deliver (frames d) (buffer r)) = Looping"
  shows "reader_thread (d # ds) r
         = reader_thread ds (r\<lparr>buffer := snd (deliver (frames d) (buffer r)), errors := 0\<rparr>)"
proof -
  from assms(4) obtain b' where "deliver (frames d) (buffer r) = (Looping, b')"
    by (cases "deliver (frames d) (buffer r)") simp
  with assms show ?thesis
    by (subst reader_thread.simps) simp
qed

lemma on_error_funpow:
  "buffer ((on_error ^^ n) r) = buffer r \<and> errors ((on_error ^^ n) r) = errors r + of_nat n"
  by (induction n) (simp_all add: on_error_fields)

lemma reader_thread_failing_calls:
  assumes "\<not> m_quit (buffer r)" and "\<not> m_seek_asked (buffer r)"
  shows "reader_thread (replicate n failing_call @ ds) r = reader_thread ds ((on_error ^^ n) r)"
  using assms
proof (induction n arbitrary: r)
  case 0
  show ?case by simp
next
  case (Suc n)
  have "reader_thread (failing_call # replicate n failing_call @ ds) r
        = reader_thread (replicate n failing_call @ ds) (on_error r)"
    using Suc.prems reader_thread_error_step [of r failing_call "replicate n failing_call @ ds"]
    by (simp add: failing_call_def)
  also have "\<dots> = reader_thread ds ((on_error ^^ n) (on_error r))"
    using Suc.prems by (intro Suc.IH) (simp_all add: on_error_fields)
  finally show ?case
    by (simp add: funpow_swap1)
qed

text \<open>
  C9. In a run of the reader thread over any list of decoder calls, with \<open>m_quit\<close> unset
  at the start (nothing in the run sets it), the thread never leaves the loop. A decoder
  call that throws an error takes the thread to the next round with the counter
  incremented and the buffer as the callbacks left it; after \<open>n\<close> failing calls in a row,
  for every \<open>n\<close>, the thread is still in the loop, has counted \<open>n\<close> more errors (modulo
  \<open>2^32\<close>, the counter being unsigned) and goes on with the remaining calls. A decoder call
  that returns sets the counter to zero.
\<close>

theorem decode_errors_keep_looping:
  assumes "\<not> m_quit (buffer r)"
  shows "fst (reader_thread ds r) \<noteq> Finished
     \<and> (\<not> m_seek_asked (buffer r) \<and> ending d = Throws_Error
          \<and> fst (deliver (frames d) (buffer r)) = Looping \<longrightarrow>
        reader_thread (d # ds) r
          = reader_thread ds (on_error (r\<lparr>buffer := snd (deliver (frames d) (buffer r))\<rparr>)))
     \<and> (\<not> m_seek_asked (buffer r) \<longrightarrow>
          reader_thread (replicate n failing_call @ ds) r = reader_thread ds ((on_error ^^ n) r)
          \<and> reader_thread (replicate n failing_call) r = (Looping, (on_error ^^ n) r)
          \<and> buffer ((on_error ^^ n) r) = buffer r
          \<and> errors ((on_error ^^ n) r) = errors r + of_nat n)
     \<and> (\<not> m_seek_asked (buffer r) \<and> ending d = Returns
          \<and> fst (deliver (frames d) (buffer r)) = Looping \<longrightarrow>
        reader_thread (d # ds) r
          = reader_thread ds (r\<lparr>buffer := snd (deliver (frames d) (buffer r)), errors := 0\<rparr>))"
proof (intro conjI impI)
  from assms show "fst (reader_thread ds r) \<noteq> Finished"
    by (rule reader_thread_not_Finished)
next
  assume "\<not> m_seek_asked (buffer r) \<and> ending d = Throws_Error
    \<and> fst (deliver (frames d) (buffer r)) = Looping"
  with assms show "reader_thread (d # ds) r
      = reader_thread ds (on_error (r\<lparr>buffer := snd (deliver (frames d) (buffer r))\<rparr>))"
    by (simp add: reader_thread_error_step)
next
  assume ns: "\<not> m_seek_asked (buffer r)"
  with assms show "reader_thread (replicate n failing_call @ ds) r
      = reader_thread ds ((on_error ^^ n) r)"
    by (rule reader_thread_failing_calls)
  from assms ns have "reader_thread (replicate n failing_call @ []) r
      = reader_thread [] ((on_error ^^ n) r)"
    by (rule reader_thread_failing_calls)
  with assms ns show "reader_thread (replicate n failing_call) r = (Looping, (on_error ^^ n) r)"
    by (simp add: reader_thread_idle on_error_funpow)
  show "buffer ((on_error ^^ n) r) = buffer r"
    and "errors ((on_error ^^ n) r) = errors r + of_nat n"
    by (simp_all add: on_error_funpow)
next
  assume "\<not> m_seek_asked (buffer r) \<and> ending d = Returns
    \<and> fst (deliver (frames d) (buffer r)) = Looping"
  with assms show "reader_thread (d # ds) r
      = reader_thread ds (r\<lparr>buffer := snd (deliver (frames d) (buffer r)), errors := 0\<rparr>)"
    by (simp add: reader_thread_success_step)
qed

lemma toy_three_failures:
  "(on_error ^^ 3) toy_reader
   = toy_reader\<lparr>errors := 3, clog := [Decode_error, Decode_error, Decode_error, Multiple_errors]\<rparr>"
proof -
  have "on_error toy_reader = toy_reader\<lparr>errors := 1, clog := [Decode_error]\<rparr>"
    by (simp add: on_error_def toy_reader_def)
  moreover have "on_error (toy_reader\<lparr>errors := 1, clog := [Decode_error]\<rparr>)
      = toy_reader\<lparr>errors := 2, clog := [Decode_error, Decode_error]\<rparr>"
    by (simp add: on_error_def toy_reader_def)
  moreover have "on_error (toy_reader\<lparr>errors := 2, clog := [Decode_error, Decode_error]\<rparr>)
      = toy_reader\<lparr>errors := 3,
          clog := [Decode_error, Decode_error, Decode_error, Multiple_errors]\<rparr>"
    by (simp add: on_error_def toy_reader_def)
  ultimately show ?thesis
    by (simp add: numeral_3_eq_3)
qed

theorem decode_errors_keep_looping_witness:
  "\<not> m_quit (buffer toy_reader) \<and> \<not> m_seek_asked (buffer toy_reader)
   \<and> reader_thread (replicate 3 failing_call) toy_reader
       = (Looping,
          \<lparr>buffer = toy, errors = 3, seek_calls = [],
            clog = [Decode_error, Decode_error, Decode_error, Multiple_errors]\<rparr>)
   \<and> ending good_call = Returns
   \<and> reader_thread (replicate 3 failing_call @ [good_call]) toy_reader
       = (Looping,
          \<lparr>buffer = toy\<lparr>m_data := [5, 6, 0, 0, 0, 0, 0, 0], m_write_pos := 2\<rparr>,
            errors = 0, seek_calls = [],
            clog = [Decode_error, Decode_error, Decode_error, Multiple_errors]\<rparr>)"
proof -
  let ?after3 = "\<lparr>buffer = toy, errors = 3, seek_calls = [],
      clog = [Decode_error, Decode_error, Decode_error, Multiple_errors]\<rparr>"
  let ?after4 = "\<lparr>buffer = toy\<lparr>m_data := [5, 6, 0, 0, 0, 0, 0, 0], m_write_pos := 2\<rparr>,
      errors = 0, seek_calls = [],
      clog = [Decode_error, Decode_error, Decode_error, Multiple_errors]\<rparr>"
  have q: "\<not> m_quit (buffer toy_reader)" "\<not> m_seek_asked (buffer toy_reader)"
    by (simp_all add: toy_reader_def toy_def)
  have q3: "\<not> m_quit (buffer ?after3)" "\<not> m_seek_asked (buffer ?after3)"
    by (simp_all add: toy_def)
  have q4: "\<not> m_quit (buffer ?after4)" "\<not> m_seek_asked (buffer ?after4)"
    by (simp_all add: toy_def)
  have f3: "(on_error ^^ 3) toy_reader = ?after3"
    by (simp add: toy_three_failures) (simp add: toy_reader_def)
  have w: "operator_call toy [5, 6] 0
      = (Written, toy\<lparr>m_data := [5, 6, 0, 0, 0, 0, 0, 0], m_write_pos := 2\<rparr>)"
    by (simp add: operator_call_def operator_call_wait_def to_int64_def toy_def condition_def wantMore_def
      copy_to_def)
  have d: "deliver (frames good_call) (buffer ?after3)
      = (Looping, toy\<lparr>m_data := [5, 6, 0, 0, 0, 0, 0, 0], m_write_pos := 2\<rparr>)"
    by (simp add: good_call_def w)
  have e: "ending good_call = Returns"
    by (simp add: good_call_def)
  from decode_errors_keep_looping [OF q(1), of "[good_call]" good_call 3] q(2)
  have a: "reader_thread (replicate 3 failing_call @ [good_call]) toy_reader
        = reader_thread [good_call] ?after3"
    and b: "reader_thread (replicate 3 failing_call) toy_reader = (Looping, ?after3)"
    by (simp_all only: f3 simp_thms)
  from decode_errors_keep_looping [OF q3(1), of "[]" good_call 0] q3(2) e d
  have "reader_thread [good_call] ?after3 = reader_thread [] ?after4"
    by simp
  also from q4 have "\<dots> = (Looping, ?after4)"
    by (rule reader_thread_idle)
  finally show ?thesis
    using q a b e by simp
qed

lemma seek_commit_fields:
  "m_seek_asked (buffer (seek_commit r)) = False"
  "m_write_pos (buffer (seek_commit r)) = m_read_pos (buffer r)"
  "m_read_pos (buffer (seek_commit r)) = m_read_pos (buffer r)"
  "seek_calls (seek_commit r)
     = seek_calls r @ [real_of_int (m_read_pos (buffer r)) / real AV_TIME_BASE]"
  by (simp_all add: seek_commit_def Let_def)

lemma seek_time_ignores_rate:
  "seek_calls (seek_commit (r\<lparr>buffer := (buffer r)\<lparr>m_sps := k\<rparr>\<rparr>)) = seek_calls (seek_commit r)"
  by (simp add: seek_commit_def Let_def)

text \<open>
  C1 at a concrete input: a seek is pending with the read cursor at sample 96000 of a
  stream of 96000 samples per second (48 kHz, two channels), that is at second 1. The
  thread clears the flag, sets the write cursor to the read cursor and calls the decoder's
  seek, but with the time \<open>96000 / AV_TIME_BASE = 0.096\<close> seconds: the cursor is divided by
  the microseconds in a second, and \<open>m_sps\<close> is not used.
\<close>

theorem seek_commit_target_time:
  "reader_thread [] (toy_reader\<lparr>buffer := toy_seeking\<rparr>)
     = (Looping,
        toy_reader\<lparr>buffer := toy_seeking\<lparr>m_write_pos := 96000, m_seek_asked := False\<rparr>,
                    seek_calls := [12 / 125]\<rparr>)
   \<and> real_of_int (m_read_pos toy_seeking) / real (m_sps toy_seeking) = 1"
proof -
  let ?r = "toy_reader\<lparr>buffer := toy_seeking\<rparr>"
  have "reader_thread [] ?r = reader_thread [] (seek_commit ?r)"
    by (rule reader_thread_seek_step) (simp_all add: toy_seeking_def toy_def)
  also have "seek_commit ?r
      = toy_reader\<lparr>buffer := toy_seeking\<lparr>m_write_pos := 96000, m_seek_asked := False\<rparr>,
                    seek_calls := [12 / 125]\<rparr>"
    by (simp add: seek_commit_def toy_reader_def toy_seeking_def toy_def AV_TIME_BASE_def)
  also have "reader_thread [] \<dots> = (Looping, \<dots>)"
    by (rule reader_thread_idle) (simp_all add: toy_seeking_def toy_def)
  finally show ?thesis
    by (simp add: toy_seeking_def toy_def)
qed

end
